theory Spec2Isabelle
  imports Complex_Main "HOL-Library.Log_Nat" "HOL-Library.AList"
begin

section \<open>Binance OHLCV exporter: HTTP fetch with retry\<close>

text \<open>
  The exceptions that \<^verbatim>\<open>_request_with_retry\<close> distinguishes. \<^verbatim>\<open>requests.HTTPError\<close>
  carries the status code of its response, or nothing when \<^verbatim>\<open>exc.response is None\<close>.
  Every other exception (a body that is not JSON, an invalid URL, a failed conversion of a
  row) is \<open>OtherError\<close>: no handler of the program catches it.
\<close>

datatype exc = ConnectionError | Timeout | HTTPError "int option" | OtherError string

text \<open>The query parameters, a \<^verbatim>\<open>dict[str, str | int]\<close> in insertion order.\<close>

datatype param = PStr string | PInt int

type_synonym params = "(string \<times> param) list"

text \<open>
  What one pass through the \<^verbatim>\<open>try\<close> body gives: \<^verbatim>\<open>requests.get\<close>,
  \<^verbatim>\<open>raise_for_status\<close> and \<^verbatim>\<open>r.json()\<close> either produce the parsed JSON array or raise.
\<close>

datatype 'r http_outcome = Body "'r list" | Raises exc

text \<open>
  The observable effects, in the order they happen: each call of \<^verbatim>\<open>requests.get\<close> with its
  arguments, and each call of \<^verbatim>\<open>time.sleep\<close> with its duration in seconds.
\<close>

datatype event = Get string params int | Sleep rat

record 'w world =
  net :: 'w
  trace :: "event list"

type_synonym ('w, 'r) transport = "'w \<Rightarrow> string \<Rightarrow> params \<Rightarrow> int \<Rightarrow> 'r http_outcome \<times> 'w"

definition do_get :: "('w, 'r) transport \<Rightarrow> string \<Rightarrow> params \<Rightarrow> int \<Rightarrow> 'w world
    \<Rightarrow> 'r http_outcome \<times> 'w world" where
  "do_get get url ps timeout w =
     (case get (net w) url ps timeout of
        (out, n') \<Rightarrow> (out, w\<lparr>net := n', trace := trace w @ [Get url ps timeout]\<rparr>))"

definition do_sleep :: "rat \<Rightarrow> 'w world \<Rightarrow> 'w world" where
  "do_sleep secs w = w\<lparr>trace := trace w @ [Sleep secs]\<rparr>"

text \<open>
  The body of \<^verbatim>\<open>for attempt in range(1, retries + 1)\<close>, from the value \<open>attempt\<close> on.
  When the range is exhausted the function falls through to \<^verbatim>\<open>return []\<close>.
\<close>

function retry_loop :: "('w, 'r) transport \<Rightarrow> string \<Rightarrow> params \<Rightarrow> int \<Rightarrow> int \<Rightarrow> int
    \<Rightarrow> 'w world \<Rightarrow> (exc + 'r list) \<times> 'w world" where
  "retry_loop get url ps timeout retries attempt w =
     (if retries < attempt then (Inr [], w)
      else
        (case do_get get url ps timeout w of
           (Body js, w1) \<Rightarrow> (Inr js, w1)
         | (Raises ConnectionError, w1) \<Rightarrow>
             if attempt = retries then (Inl ConnectionError, w1)
             else retry_loop get url ps timeout retries (attempt + 1)
                    (do_sleep (2 ^ nat attempt) w1)
         | (Raises Timeout, w1) \<Rightarrow>
             if attempt = retries then (Inl Timeout, w1)
             else retry_loop get url ps timeout retries (attempt + 1)
                    (do_sleep (2 ^ nat attempt) w1)
         | (Raises (HTTPError st), w1) \<Rightarrow>
             if st = Some 429
             then retry_loop get url ps timeout retries (attempt + 1)
                    (do_sleep (2 ^ nat attempt) w1)
             else (Inl (HTTPError st), w1)
         | (Raises (OtherError m), w1) \<Rightarrow> (Inl (OtherError m), w1)))"
  by pat_completeness auto
termination
  by (relation "measure (\<lambda>(get, url, ps, timeout, retries, attempt, w). nat (retries + 1 - attempt))")
    auto

definition request_with_retry :: "('w, 'r) transport \<Rightarrow> string \<Rightarrow> params \<Rightarrow> int \<Rightarrow> int
    \<Rightarrow> 'w world \<Rightarrow> (exc + 'r list) \<times> 'w world" where
  "request_with_retry get url ps timeout retries w = retry_loop get url ps timeout retries 1 w"

text \<open>A transport on which every request raises the same exception.\<close>

definition always_raises :: "exc \<Rightarrow> (unit, 'r) transport" where
  "always_raises e n url ps timeout = (Raises e, n)"

definition world0 :: "unit world" where
  "world0 = \<lparr>net = (), trace = []\<rparr>"

section \<open>Candle records\<close>

text \<open>
  A Python \<^verbatim>\<open>float\<close>: an IEEE 754 binary64 value. The finite values are the rationals
  that binary64 represents (the two zeros are identified, as \<^verbatim>\<open>==\<close> does).
\<close>

datatype pyfloat = Flt rat | PosInf | NegInf | NaN

text \<open>Rounding to the nearest integer, ties to the even one.\<close>

definition round_half_even :: "rat \<Rightarrow> int" where
  "round_half_even x =
     (let f = \<lfloor>x\<rfloor>; r = x - of_int f
      in if r < 1 / 2 then f else if 1 / 2 < r then f + 1 else if even f then f else f + 1)"

definition pow2 :: "int \<Rightarrow> rat" where
  "pow2 e = (if 0 \<le> e then 2 ^ nat e else 1 / 2 ^ nat (- e))"

text \<open>The binary exponent of a positive rational: \<open>pow2 (ilog2 x) \<le> x < pow2 (ilog2 x + 1)\<close>.\<close>

definition ilog2 :: "rat \<Rightarrow> int" where
  "ilog2 x = (case quotient_of x of (p, q) \<Rightarrow>
                let e = bitlen p - bitlen q in if pow2 e \<le> x then e else e - 1)"

text \<open>
  The binary64 value nearest to a rational (round to nearest, ties to even): a significand
  \<open>m\<close> of at most 53 bits at the exponent \<open>e\<close> of the value, subnormals below
  \<open>pow2 (- 1022)\<close>, and an infinity when the rounded value reaches \<open>pow2 1024\<close>, that is,
  when \<open>e\<close> is above 1023 or \<open>m\<close> rounds up to \<open>2 ^ 53\<close> at \<open>e = 1023\<close>.
\<close>

definition round_double :: "rat \<Rightarrow> pyfloat" where
  "round_double x =
     (if x = 0 then Flt 0
      else
        let a = \<bar>x\<bar>;
            e = max (ilog2 a) (- 1022);
            u = pow2 (e - 52);
            m = round_half_even (a / u)
        in if 1024 \<le> e \<or> (e = 1023 \<and> m = 2 ^ 53) then (if 0 < x then PosInf else NegInf)
           else Flt (if 0 < x then of_int m * u else - (of_int m * u)))"

record kline =
  open_time_ms :: int
  open_price :: pyfloat
  high :: pyfloat
  low :: pyfloat
  close_price :: pyfloat
  volume :: pyfloat
  close_time_ms :: int
  quote_volume :: pyfloat
  trades :: int
  taker_buy_base_volume :: pyfloat
  taker_buy_quote_volume :: pyfloat

section \<open>Pagination\<close>

definition BASE_URL :: string where
  "BASE_URL = ''https://data-api.binance.vision''"

definition KLINES_PATH :: string where
  "KLINES_PATH = ''/api/v3/klines''"

text \<open>Sequencing of steps that may raise: the first exception ends the computation.\<close>

fun ebind :: "exc + 'a \<Rightarrow> ('a \<Rightarrow> exc + 'b) \<Rightarrow> exc + 'b" where
  "ebind (Inl e) f = Inl e"
| "ebind (Inr x) f = f x"

text \<open>\<^verbatim>\<open>row[i]\<close> on a JSON array: an \<^verbatim>\<open>IndexError\<close> when the row is too short.\<close>

definition py_index :: "'c list \<Rightarrow> nat \<Rightarrow> exc + 'c" where
  "py_index row i = (if i < length row then Inr (row ! i) else Inl (OtherError ''IndexError''))"

text \<open>
  A row is the list of its JSON cells, of a type \<open>'c\<close>. The builtins \<^verbatim>\<open>int\<close> and
  \<^verbatim>\<open>float\<close> applied to a cell are parameters \<open>to_int\<close> and \<open>to_float\<close>; each may raise.
\<close>

definition parse_row :: "('c \<Rightarrow> exc + int) \<Rightarrow> ('c \<Rightarrow> exc + pyfloat) \<Rightarrow> 'c list \<Rightarrow> exc + kline" where
  "parse_row to_int to_float row =
     ebind (ebind (py_index row 0) to_int) (\<lambda>v0.
     ebind (ebind (py_index row 1) to_float) (\<lambda>v1.
     ebind (ebind (py_index row 2) to_float) (\<lambda>v2.
     ebind (ebind (py_index row 3) to_float) (\<lambda>v3.
     ebind (ebind (py_index row 4) to_float) (\<lambda>v4.
     ebind (ebind (py_index row 5) to_float) (\<lambda>v5.
     ebind (ebind (py_index row 6) to_int) (\<lambda>v6.
     ebind (ebind (py_index row 7) to_float) (\<lambda>v7.
     ebind (ebind (py_index row 8) to_int) (\<lambda>v8.
     ebind (ebind (py_index row 9) to_float) (\<lambda>v9.
     ebind (ebind (py_index row 10) to_float) (\<lambda>v10.
       Inr \<lparr>open_time_ms = v0, open_price = v1, high = v2, low = v3, close_price = v4,
            volume = v5, close_time_ms = v6, quote_volume = v7, trades = v8,
            taker_buy_base_volume = v9, taker_buy_quote_volume = v10\<rparr>)))))))))))"

text \<open>\<^verbatim>\<open>for row in data: out.append(Kline(...))\<close>: the rows in order, up to the first that raises.\<close>

fun parse_rows :: "('c \<Rightarrow> exc + int) \<Rightarrow> ('c \<Rightarrow> exc + pyfloat) \<Rightarrow> 'c list list \<Rightarrow> exc + kline list" where
  "parse_rows to_int to_float [] = Inr []"
| "parse_rows to_int to_float (row # rows) =
     ebind (parse_row to_int to_float row) (\<lambda>k.
     ebind (parse_rows to_int to_float rows) (\<lambda>ks. Inr (k # ks)))"

definition page_params :: "string \<Rightarrow> string \<Rightarrow> int \<Rightarrow> int \<Rightarrow> params" where
  "page_params symbol interval next_start end_ms =
     [(''symbol'', PStr symbol), (''interval'', PStr interval),
      (''startTime'', PInt next_start), (''endTime'', PInt end_ms), (''limit'', PInt 1000)]"

text \<open>
  The \<^verbatim>\<open>while True\<close> loop of \<^verbatim>\<open>fetch_klines\<close>, entered with the cursor \<open>next_start\<close> and
  the rows accumulated so far. It may run forever: the value is then \<open>None\<close>.
  \<^verbatim>\<open>_request_with_retry\<close> is called with its default of 3 attempts; between two pages the
  program sleeps 0.15 seconds.
\<close>

partial_function (option) fetch_loop :: "('w, 'c list) transport \<Rightarrow> ('c \<Rightarrow> exc + int)
    \<Rightarrow> ('c \<Rightarrow> exc + pyfloat) \<Rightarrow> string \<Rightarrow> string \<Rightarrow> int \<Rightarrow> int \<Rightarrow> int \<Rightarrow> kline list
    \<Rightarrow> 'w world \<Rightarrow> ((exc + kline list) \<times> 'w world) option" where
  "fetch_loop get to_int to_float symbol interval end_ms timeout next_start out w =
     (case request_with_retry get (BASE_URL @ KLINES_PATH)
             (page_params symbol interval next_start end_ms) timeout 3 w of
        (Inl e, w1) \<Rightarrow> Some (Inl e, w1)
      | (Inr data, w1) \<Rightarrow>
          if data = [] then Some (Inr out, w1)
          else
            (case parse_rows to_int to_float data of
               Inl e \<Rightarrow> Some (Inl e, w1)
             | Inr ks \<Rightarrow>
                 (case ebind (py_index (last data) 0) to_int of
                    Inl e \<Rightarrow> Some (Inl e, w1)
                  | Inr last_open \<Rightarrow>
                      if end_ms \<le> last_open \<or> length data < 1000 then Some (Inr (out @ ks), w1)
                      else fetch_loop get to_int to_float symbol interval end_ms timeout
                             (last_open + 1) (out @ ks) (do_sleep (3 / 20) w1))))"

text \<open>
  The \<^verbatim>\<open>dedup\<close> dictionary, keyed by open-time, in insertion order: a later record with the
  same key replaces the value and keeps the key's place.
\<close>

definition dedup :: "kline list \<Rightarrow> (int \<times> kline) list" where
  "dedup out = fold (\<lambda>k d. AList.update (open_time_ms k) k d) out []"

definition out_sorted :: "kline list \<Rightarrow> kline list" where
  "out_sorted out = map (\<lambda>t. the (map_of (dedup out) t)) (sort (map fst (dedup out)))"

definition fetch_klines :: "('w, 'c list) transport \<Rightarrow> ('c \<Rightarrow> exc + int)
    \<Rightarrow> ('c \<Rightarrow> exc + pyfloat) \<Rightarrow> string \<Rightarrow> string \<Rightarrow> int \<Rightarrow> int \<Rightarrow> int
    \<Rightarrow> 'w world \<Rightarrow> ((exc + kline list) \<times> 'w world) option" where
  "fetch_klines get to_int to_float symbol interval start_ms end_ms timeout w =
     (case fetch_loop get to_int to_float symbol interval end_ms timeout start_ms [] w of
        None \<Rightarrow> None
      | Some (Inl e, w1) \<Rightarrow> Some (Inl e, w1)
      | Some (Inr out, w1) \<Rightarrow>
          Some (Inr (filter (\<lambda>k. open_time_ms k \<le> end_ms) (out_sorted out)), w1))"

section \<open>Float arithmetic\<close>

fun fneg :: "pyfloat \<Rightarrow> pyfloat" where
  "fneg (Flt a) = Flt (- a)"
| "fneg PosInf = NegInf"
| "fneg NegInf = PosInf"
| "fneg NaN = NaN"

fun fadd :: "pyfloat \<Rightarrow> pyfloat \<Rightarrow> pyfloat" where
  "fadd (Flt a) (Flt b) = round_double (a + b)"
| "fadd NaN y = NaN"
| "fadd x NaN = NaN"
| "fadd PosInf NegInf = NaN"
| "fadd NegInf PosInf = NaN"
| "fadd PosInf y = PosInf"
| "fadd x PosInf = PosInf"
| "fadd NegInf y = NegInf"
| "fadd x NegInf = NegInf"

definition fsub :: "pyfloat \<Rightarrow> pyfloat \<Rightarrow> pyfloat" where
  "fsub x y = fadd x (fneg y)"

text \<open>The sign of a float that is not NaN: \<open>-1\<close>, \<open>0\<close> or \<open>1\<close>.\<close>

fun fsign :: "pyfloat \<Rightarrow> int" where
  "fsign (Flt a) = (if a = 0 then 0 else if 0 < a then 1 else - 1)"
| "fsign PosInf = 1"
| "fsign NegInf = - 1"
| "fsign NaN = 0"

fun fmul :: "pyfloat \<Rightarrow> pyfloat \<Rightarrow> pyfloat" where
  "fmul (Flt a) (Flt b) = round_double (a * b)"
| "fmul NaN y = NaN"
| "fmul x NaN = NaN"
| "fmul x y = (if fsign x * fsign y = 0 then NaN
               else if 0 < fsign x * fsign y then PosInf else NegInf)"

text \<open>True division \<^verbatim>\<open>x / y\<close> of floats: a zero divisor raises \<^verbatim>\<open>ZeroDivisionError\<close>.\<close>

fun fdiv :: "pyfloat \<Rightarrow> pyfloat \<Rightarrow> exc + pyfloat" where
  "fdiv x (Flt b) =
     (if b = 0 then Inl (OtherError ''ZeroDivisionError'')
      else case x of
             Flt a \<Rightarrow> Inr (round_double (a / b))
           | NaN \<Rightarrow> Inr NaN
           | PosInf \<Rightarrow> Inr (if 0 < b then PosInf else NegInf)
           | NegInf \<Rightarrow> Inr (if 0 < b then NegInf else PosInf))"
| "fdiv NaN y = Inr NaN"
| "fdiv x NaN = Inr NaN"
| "fdiv (Flt a) y = Inr (Flt 0)"
| "fdiv x y = Inr NaN"

text \<open>\<^verbatim>\<open>bool(x)\<close> of a float: false for zero only.\<close>

fun truthy :: "pyfloat \<Rightarrow> bool" where
  "truthy (Flt a) = (a \<noteq> 0)"
| "truthy x = True"

text \<open>\<^verbatim>\<open>float(n)\<close> of an integer, as a mixed operation converts it.\<close>

definition float_of_int :: "int \<Rightarrow> exc + pyfloat" where
  "float_of_int n =
     (case round_double (of_int n) of
        Flt r \<Rightarrow> Inr (Flt r)
      | PosInf \<Rightarrow> Inl (OtherError ''OverflowError'')
      | NegInf \<Rightarrow> Inl (OtherError ''OverflowError'')
      | NaN \<Rightarrow> Inl (OtherError ''OverflowError''))"


section \<open>Timestamps\<close>

definition digit_char :: "int \<Rightarrow> char" where
  "digit_char d = ''0123456789'' ! nat d"

definition pad2 :: "int \<Rightarrow> string" where
  "pad2 n = [digit_char (n div 10 mod 10), digit_char (n mod 10)]"

definition pad4 :: "int \<Rightarrow> string" where
  "pad4 n = [digit_char (n div 1000 mod 10), digit_char (n div 100 mod 10),
             digit_char (n div 10 mod 10), digit_char (n mod 10)]"

text \<open>The proleptic Gregorian date (year, month, day) of a day number counted from 1970-01-01.\<close>

definition civil_from_days :: "int \<Rightarrow> int \<times> int \<times> int" where
  "civil_from_days days =
     (let z = days + 719468;
          era = z div 146097;
          doe = z mod 146097;
          yoe = (doe - doe div 1460 + doe div 36524 - doe div 146096) div 365;
          doy = doe - (365 * yoe + yoe div 4 - yoe div 100);
          mp = (5 * doy + 2) div 153;
          d = doy - (153 * mp + 2) div 5 + 1;
          m = (if mp < 10 then mp + 3 else mp - 9);
          y = yoe + era * 400 + (if m \<le> 2 then 1 else 0)
      in (y, m, d))"

text \<open>
  \<^verbatim>\<open>dt.datetime.fromtimestamp(ms / 1000, tz=utc)\<close>, in whole seconds since the epoch:
  \<^verbatim>\<open>ms / 1000\<close> is the nearest binary64 value (an \<^verbatim>\<open>OverflowError\<close> when there is
  none), and \<^verbatim>\<open>fromtimestamp\<close> rounds it to the nearest microsecond (ties to even).
  The seconds must fit the 64-bit \<^verbatim>\<open>time_t\<close> (else \<^verbatim>\<open>OverflowError\<close>), their year must
  fit the C \<^verbatim>\<open>int\<close> of \<^verbatim>\<open>gmtime\<close> (else \<^verbatim>\<open>OSError\<close>, with the limits of glibc), and
  the year must be one of 1 to 9999 (else \<^verbatim>\<open>ValueError\<close>).
\<close>

definition utc_seconds :: "int \<Rightarrow> exc + int" where
  "utc_seconds ms =
     (case round_double (of_int ms / 1000) of
        Flt t \<Rightarrow>
          (let s = round_half_even (t * 1000000) div 1000000
           in if s < - (2 ^ 63) \<or> 2 ^ 63 \<le> s then Inl (OtherError ''OverflowError'')
              else if s < - 67768040609740800 \<or> 67768036191676799 < s
                then Inl (OtherError ''OSError'')
              else if s < - 62135596800 \<or> 253402300799 < s then Inl (OtherError ''ValueError'')
              else Inr s)
      | PosInf \<Rightarrow> Inl (OtherError ''OverflowError'')
      | NegInf \<Rightarrow> Inl (OtherError ''OverflowError'')
      | NaN \<Rightarrow> Inl (OtherError ''OverflowError''))"

text \<open>
  \<^verbatim>\<open>strftime("%Y-%m-%d %H:%M:%S")\<close> of a time in the years 1 to 9999. The C library
  formats \<^verbatim>\<open>%Y\<close>: glibc writes the year in decimal without padding, so a year before 1000
  has fewer than four digits.
\<close>

fun decimal :: "nat \<Rightarrow> string" where
  "decimal n = (if n < 10 then [digit_char (int n)]
                else decimal (n div 10) @ [digit_char (int (n mod 10))])"

definition strftime :: "int \<Rightarrow> string" where
  "strftime s =
     (case civil_from_days (s div 86400) of
        (y, m, d) \<Rightarrow>
          decimal (nat y) @ ''-'' @ pad2 m @ ''-'' @ pad2 d @ '' '' @ pad2 (s mod 86400 div 3600)
          @ '':'' @ pad2 (s mod 3600 div 60) @ '':'' @ pad2 (s mod 60))"

definition ms_to_utc_iso :: "int \<Rightarrow> exc + string" where
  "ms_to_utc_iso ms = ebind (utc_seconds ms) (\<lambda>s. Inr (strftime s))"

section \<open>Metrics\<close>

text \<open>
  The inner function \<^verbatim>\<open>close_at_or_after\<close>: the loop returns the close of the first record
  that opens at or after the target, and falls back to the close of the last record.
\<close>

fun first_close :: "kline list \<Rightarrow> int \<Rightarrow> pyfloat option" where
  "first_close [] target_ms = None"
| "first_close (k # ks) target_ms =
     (if target_ms \<le> open_time_ms k then Some (close_price k) else first_close ks target_ms)"

definition close_at_or_after :: "kline list \<Rightarrow> int \<Rightarrow> pyfloat" where
  "close_at_or_after klines_1h target_ms =
     (case first_close klines_1h target_ms of
        Some c \<Rightarrow> c
      | None \<Rightarrow> close_price (last klines_1h))"

text \<open>\<^verbatim>\<open>(c_end / c - 1.0) * 100.0 if c else float("nan")\<close>\<close>

definition pct_change :: "pyfloat \<Rightarrow> pyfloat \<Rightarrow> exc + pyfloat" where
  "pct_change c_end c =
     (if truthy c then ebind (fdiv c_end c) (\<lambda>q. Inr (fmul (fsub q (Flt 1)) (Flt 100)))
      else Inr NaN)"

text \<open>\<^verbatim>\<open>d[day] = d.get(day, 0.0) + v\<close> on a dictionary kept in insertion order.\<close>

definition add_to_day :: "string \<Rightarrow> pyfloat \<Rightarrow> (string \<times> pyfloat) list \<Rightarrow> (string \<times> pyfloat) list" where
  "add_to_day day v d =
     AList.update day (fadd (case map_of d day of Some x \<Rightarrow> x | None \<Rightarrow> Flt 0) v) d"

text \<open>The loop that fills \<^verbatim>\<open>day_b\<close> and \<^verbatim>\<open>day_q\<close>; a timestamp out of range raises.\<close>

fun day_loop :: "kline list \<Rightarrow> (string \<times> pyfloat) list \<Rightarrow> (string \<times> pyfloat) list
    \<Rightarrow> exc + (string \<times> pyfloat) list \<times> (string \<times> pyfloat) list" where
  "day_loop [] day_b day_q = Inr (day_b, day_q)"
| "day_loop (k # ks) day_b day_q =
     ebind (ms_to_utc_iso (open_time_ms k)) (\<lambda>iso.
       day_loop ks (add_to_day (take 10 iso) (volume k) day_b)
                   (add_to_day (take 10 iso) (quote_volume k) day_q))"

text \<open>
  \<^verbatim>\<open>sum(d.values()) / len(d) if d else float("nan")\<close>. The builtin \<^verbatim>\<open>sum\<close> over floats
  is the parameter \<open>py_sum\<close>: it is a plain loop of additions up to Python 3.11 and a
  compensated summation from Python 3.12 on.
\<close>

definition day_average :: "(pyfloat list \<Rightarrow> pyfloat) \<Rightarrow> (string \<times> pyfloat) list \<Rightarrow> exc + pyfloat" where
  "day_average py_sum d =
     (if d \<noteq> [] then ebind (float_of_int (int (length d))) (\<lambda>n. fdiv (py_sum (map snd d)) n)
      else Inr NaN)"

definition calc_metrics :: "(pyfloat list \<Rightarrow> pyfloat) \<Rightarrow> string \<Rightarrow> kline list
    \<Rightarrow> exc + pyfloat \<times> pyfloat \<times> pyfloat \<times> pyfloat" where
  "calc_metrics py_sum symbol klines_1h =
     (if klines_1h = [] then Inr (NaN, NaN, NaN, NaN)
      else
        let end_ms = open_time_ms (last klines_1h);
            c_end = close_price (last klines_1h);
            ms_90 = end_ms - 90 * 24 * 3600 * 1000;
            ms_180 = end_ms - 180 * 24 * 3600 * 1000;
            c_90 = close_at_or_after klines_1h ms_90;
            c_180 = close_at_or_after klines_1h ms_180
        in
          ebind (pct_change c_end c_90) (\<lambda>ch90.
          ebind (pct_change c_end c_180) (\<lambda>ch180.
          ebind (day_loop klines_1h [] []) (\<lambda>(day_b, day_q).
          ebind (day_average py_sum day_b) (\<lambda>avg_b.
          ebind (day_average py_sum day_q) (\<lambda>avg_q.
            Inr (ch90, ch180, avg_b, avg_q)))))))"



section \<open>The metrics as the specification words them\<close>



text \<open>The distinct elements of a list, in the order of their first occurrence.\<close>

fun uniq :: "'a list \<Rightarrow> 'a list" where
  "uniq [] = []"
| "uniq (x # xs) = x # filter (\<lambda>y. y \<noteq> x) (uniq xs)"




text \<open>
  A timestamp of whole seconds in the years 1000 to 9999, as the open-time of an hourly
  candle is: from 1000-01-01 00:00:00 to 9999-12-31 23:59:59.
\<close>

definition whole_second :: "int \<Rightarrow> bool" where
  "whole_second ms \<longleftrightarrow>
     ms mod 1000 = 0 \<and> - 30610224000000 \<le> ms \<and> ms \<le> 253402300799000"





section \<open>Concrete transports and rows\<close>

text \<open>
  A scripted transport, as a mock gives it: the state is the list of outcomes still to
  come, each request consumes one, and a request past the end of the script raises.
\<close>

fun scripted :: "('r http_outcome list, 'r) transport" where
  "scripted [] url ps timeout = (Raises (OtherError ''StopIteration''), [])"
| "scripted (x # xs) url ps timeout = (x, xs)"

text \<open>A transport that answers every request with the same page.\<close>

definition always_page :: "'r list \<Rightarrow> (unit, 'r) transport" where
  "always_page page n url ps timeout = (Body page, n)"

text \<open>
  Rows whose cells are JSON integers: \<^verbatim>\<open>int(n)\<close> is \<open>n\<close>, and \<^verbatim>\<open>float(n)\<close> is the
  binary64 value nearest to \<open>n\<close>, or an \<^verbatim>\<open>OverflowError\<close> when there is none.
\<close>

definition int_of_cell :: "int \<Rightarrow> exc + int" where
  "int_of_cell n = Inr n"

definition float_of_cell :: "int \<Rightarrow> exc + pyfloat" where
  "float_of_cell n =
     (case round_double (of_int n) of
        Flt r \<Rightarrow> Inr (Flt r)
      | PosInf \<Rightarrow> Inl (OtherError ''OverflowError'')
      | NegInf \<Rightarrow> Inl (OtherError ''OverflowError'')
      | NaN \<Rightarrow> Inl (OtherError ''OverflowError''))"

text \<open>A row of twelve cells that opens at \<open>t\<close>, all prices and volumes zero, and its candle.\<close>

definition row :: "int \<Rightarrow> int list" where
  "row t = [t, 0, 0, 0, 0, 0, t + 3599999, 0, 0, 0, 0, 0]"

definition candle :: "int \<Rightarrow> kline" where
  "candle t = \<lparr>open_time_ms = t, open_price = Flt 0, high = Flt 0, low = Flt 0,
                close_price = Flt 0, volume = Flt 0, close_time_ms = t + 3599999,
                quote_volume = Flt 0, trades = 0, taker_buy_base_volume = Flt 0,
                taker_buy_quote_volume = Flt 0\<rparr>"

text \<open>
  A transport honours \<^verbatim>\<open>startTime\<close> when the last row of every non-empty page it returns
  opens at or after the \<^verbatim>\<open>startTime\<close> of the request, as the upstream API does.
\<close>

definition honours_start :: "('w, 'c list) transport \<Rightarrow> ('c \<Rightarrow> exc + int) \<Rightarrow> bool" where
  "honours_start get to_int \<longleftrightarrow>
     (\<forall>n url ps timeout data n' c last_open.
        get n url ps timeout = (Body data, n') \<longrightarrow> data \<noteq> [] \<longrightarrow>
        map_of ps ''startTime'' = Some (PInt c) \<longrightarrow>
        ebind (py_index (last data) 0) to_int = Inr last_open \<longrightarrow> c \<le> last_open)"

text \<open>
  A server with one candle per millisecond, as the upstream API pages them: the rows that
  open from \<^verbatim>\<open>startTime\<close> to \<^verbatim>\<open>endTime\<close>, at most \<^verbatim>\<open>limit\<close> of them.
\<close>

fun int_param :: "params \<Rightarrow> string \<Rightarrow> int" where
  "int_param ps name = (case map_of ps name of Some (PInt c) \<Rightarrow> c | _ \<Rightarrow> 0)"

definition paged_server :: "(unit, int list) transport" where
  "paged_server n url ps timeout =
     (let s = int_param ps ''startTime''
      in (Body (map row [s .. min (s + int_param ps ''limit'' - 1) (int_param ps ''endTime'')]), n))"

section \<open>Properties of the retry loop\<close>

declare retry_loop.simps [simp del]

text \<open>
  C10: called with \<open>retries\<close> below 1, \<^verbatim>\<open>_request_with_retry\<close> makes no HTTP attempt
  (the world, and so the trace, is unchanged) and returns the empty list, not an error.
\<close>

theorem retry_zero_returns_empty:
  "retries < 1 \<Longrightarrow> request_with_retry get url ps timeout retries w = (Inr [], w)"
  by (simp add: request_with_retry_def retry_loop.simps)

theorem retry_zero_returns_empty_witness:
  "(0::int) < 1 \<and> request_with_retry (always_raises Timeout) ''u'' [] 20 0 world0
       = (Inr ([]::nat list), world0)"
  using retry_zero_returns_empty [of 0 "always_raises Timeout" "''u''" "[]" 20 world0] by simp

text \<open>
  C4: when the first attempt raises an HTTP error whose status is not 429 (404, say, or an
  error without a response), \<^verbatim>\<open>_request_with_retry\<close> raises that error at once: the trace
  grows by exactly one request and by no sleep.
\<close>

theorem non_retryable_status_fails_at_once:
  assumes "1 \<le> retries"
    and "get (net w) url ps timeout = (Raises (HTTPError st), n')"
    and "st \<noteq> Some 429"
  shows "request_with_retry get url ps timeout retries w =
           (Inl (HTTPError st), w\<lparr>net := n', trace := trace w @ [Get url ps timeout]\<rparr>)"
  using assms by (simp add: request_with_retry_def retry_loop.simps do_get_def)

theorem non_retryable_status_fails_at_once_witness:
  "(1::int) \<le> 3
   \<and> always_raises (HTTPError (Some 404)) (net world0) ''u'' [] 20
       = (Raises (HTTPError (Some 404)) :: nat http_outcome, ())
   \<and> Some (404::int) \<noteq> Some 429
   \<and> request_with_retry (always_raises (HTTPError (Some 404))) ''u'' [] 20 3 world0
       = (Inl (HTTPError (Some 404)) :: exc + nat list,
          \<lparr>net = (), trace = [Get ''u'' [] 20]\<rparr>)"
  using non_retryable_status_fails_at_once
          [of 3 "always_raises (HTTPError (Some 404)) :: (unit, nat) transport" world0
              "''u''" "[]" 20 "Some 404" "()"]
  by (simp add: always_raises_def world0_def)

text \<open>
  C3 (the code departs from the claim): on a transport that answers every request with
  status 429 and with \<open>retries = 3\<close>, \<^verbatim>\<open>_request_with_retry\<close> makes three attempts, sleeps
  2, 4 and 8 seconds, and then \<^emph>\<open>returns the empty list\<close>: the 429 handler has no
  \<^verbatim>\<open>if attempt == retries: raise\<close>, so the loop runs out and reaches \<^verbatim>\<open>return []\<close>.
\<close>

theorem always_429_returns_empty:
  "request_with_retry (always_raises (HTTPError (Some 429))) ''u'' [] 20 3 world0
     = (Inr ([]::nat list),
        \<lparr>net = (), trace = [Get ''u'' [] 20, Sleep 2, Get ''u'' [] 20, Sleep 4,
                              Get ''u'' [] 20, Sleep 8]\<rparr>)"
  by (simp add: request_with_retry_def retry_loop.simps do_get_def do_sleep_def
        always_raises_def world0_def)

section \<open>Properties of the pagination\<close>

lemma parse_row_row: "parse_row int_of_cell float_of_cell (row t) = Inr (candle t)"
  by (simp add: parse_row_def row_def candle_def py_index_def int_of_cell_def float_of_cell_def
        round_double_def)

lemma last_open_row: "ebind (py_index (row t) 0) int_of_cell = Inr t"
  by (simp add: row_def py_index_def int_of_cell_def)

lemma update_keeps_distinct: "distinct (map fst d) \<Longrightarrow> distinct (map fst (AList.update (open_time_ms k) k d))"
  by (rule distinct_update)

lemma update_keeps_keyed:
  assumes "\<forall>t k. map_of d t = Some k \<longrightarrow> open_time_ms k = t"
  shows "\<forall>t k'. map_of (AList.update (open_time_ms k) k d) t = Some k' \<longrightarrow> open_time_ms k' = t"
proof (intro allI impI)
  fix t k'
  assume h: "map_of (AList.update (open_time_ms k) k d) t = Some k'"
  then have h': "((map_of d)(open_time_ms k \<mapsto> k)) t = Some k'"
    by (simp only: update_conv)
  show "open_time_ms k' = t"
  proof (cases "t = open_time_ms k")
    case True
    with h' have "Some k = Some k'" by (simp only: fun_upd_same)
    then have "k = k'" by (rule Option.option.inject [THEN iffD1])
    with True show ?thesis by (simp only:)
  next
    case False
    with h' have "map_of d t = Some k'" by (simp only: fun_upd_apply if_False)
    with assms show ?thesis by blast
  qed
qed

lemma dedup_inv:
  "distinct (map fst d) \<Longrightarrow> (\<forall>t k. map_of d t = Some k \<longrightarrow> open_time_ms k = t) \<Longrightarrow>
   distinct (map fst (fold (\<lambda>k d. AList.update (open_time_ms k) k d) out d))
   \<and> (\<forall>t k. map_of (fold (\<lambda>k d. AList.update (open_time_ms k) k d) out d) t = Some k \<longrightarrow> open_time_ms k = t)"
proof (induction out arbitrary: d)
  case Nil then show ?case unfolding fold_simps id_apply by blast
next
  case (Cons k out)
  show ?case
    unfolding fold_simps
    by (rule Cons.IH [OF update_keeps_distinct [OF Cons.prems(1)] update_keeps_keyed [OF Cons.prems(2)]])
qed

lemma dedup_empty_inv:
  "distinct (map fst ([] :: (int \<times> kline) list))"
  "\<forall>t k. map_of ([] :: (int \<times> kline) list) t = Some k \<longrightarrow> open_time_ms k = t"
  by simp_all

lemma dedup_distinct: "distinct (map fst (dedup out))"
  unfolding dedup_def by (rule dedup_inv [OF dedup_empty_inv, THEN conjunct1])

lemma dedup_keyed: "map_of (dedup out) t = Some k \<Longrightarrow> open_time_ms k = t"
  unfolding dedup_def by (rule dedup_inv [OF dedup_empty_inv, THEN conjunct2, rule_format])

lemma dedup_lookup:
  assumes "t \<in> set (map fst (dedup out))"
  shows "open_time_ms (the (map_of (dedup out) t)) = t"
proof -
  from assms have "map_of (dedup out) t \<noteq> None"
    by (simp add: map_of_eq_None_iff)
  then obtain k where k: "map_of (dedup out) t = Some k" by blast
  have "open_time_ms k = t" using k by (rule dedup_keyed)
  with k show ?thesis by (simp only: option.sel)
qed

lemma out_sorted_times: "map open_time_ms (out_sorted out) = sort (map fst (dedup out))"
proof -
  have "map (\<lambda>t. open_time_ms (the (map_of (dedup out) t))) (sort (map fst (dedup out)))
            = sort (map fst (dedup out))"
  proof (rule map_idI)
    fix t
    assume "t \<in> set (sort (map fst (dedup out)))"
    then have "t \<in> set (map fst (dedup out))" by simp
    then show "open_time_ms (the (map_of (dedup out) t)) = t" by (rule dedup_lookup)
  qed
  then show ?thesis by (simp add: out_sorted_def comp_def)
qed

lemma out_sorted_strict: "sorted_wrt (<) (map open_time_ms (out_sorted out))"
  unfolding out_sorted_times using dedup_distinct [of out] by (simp add: strict_sorted_iff)

text \<open>
  C1, as the code has it: whatever pages the transport returns, a list returned by
  \<^verbatim>\<open>fetch_klines\<close> is strictly increasing in open-time, has no open-time twice, and has
  no open-time after \<open>end_ms\<close>. (The code never compares an open-time with \<open>start_ms\<close>.)
\<close>

theorem fetch_klines_sorted_unique_bounded:
  assumes "fetch_klines get to_int to_float symbol interval start_ms end_ms timeout w
             = Some (Inr ks, w')"
  shows "sorted_wrt (<) (map open_time_ms ks) \<and> distinct (map open_time_ms ks)
         \<and> (\<forall>k \<in> set ks. open_time_ms k \<le> end_ms)"
proof -
  from assms obtain out where ks: "ks = filter (\<lambda>k. open_time_ms k \<le> end_ms) (out_sorted out)"
    unfolding fetch_klines_def by (auto split: option.splits sum.splits prod.splits)
  have m: "map open_time_ms ks = filter (\<lambda>t. t \<le> end_ms) (map open_time_ms (out_sorted out))"
    by (simp add: ks filter_map comp_def)
  have s: "sorted_wrt (<) (map open_time_ms ks)"
    unfolding m by (rule sorted_wrt_filter) (rule out_sorted_strict)
  then have "distinct (map open_time_ms ks)"
    by (simp add: strict_sorted_iff)
  with s show ?thesis by (simp add: ks)
qed

theorem fetch_klines_sorted_unique_bounded_witness:
  "fetch_klines scripted int_of_cell float_of_cell ''BTCUSDT'' ''1h'' 0 10 20
     \<lparr>net = [Body [row 0, row 7, row 0, row 20]], trace = []\<rparr>
   = Some (Inr [candle 0, candle 7],
       \<lparr>net = [], trace = [Get (BASE_URL @ KLINES_PATH) (page_params ''BTCUSDT'' ''1h'' 0 10) 20]\<rparr>)
   \<and> sorted_wrt (<) (map open_time_ms [candle 0, candle 7])
   \<and> distinct (map open_time_ms [candle 0, candle 7])
   \<and> open_time_ms (candle 0) \<le> 10 \<and> open_time_ms (candle 7) \<le> 10"
proof -
  have run: "fetch_klines scripted int_of_cell float_of_cell ''BTCUSDT'' ''1h'' 0 10 20
     \<lparr>net = [Body [row 0, row 7, row 0, row 20]], trace = []\<rparr>
   = Some (Inr [candle 0, candle 7],
       \<lparr>net = [], trace = [Get (BASE_URL @ KLINES_PATH) (page_params ''BTCUSDT'' ''1h'' 0 10) 20]\<rparr>)"
    unfolding fetch_klines_def
    apply (subst fetch_loop.simps)
    apply (simp add: request_with_retry_def retry_loop.simps do_get_def parse_row_row
        last_open_row out_sorted_def dedup_def)
    apply (simp add: candle_def)
    done
  have "(\<forall>k \<in> set [candle 0, candle 7]. open_time_ms k \<le> 10)
      = (open_time_ms (candle 0) \<le> 10 \<and> open_time_ms (candle 7) \<le> 10)"
    by simp
  then show ?thesis
    using conjI [OF run fetch_klines_sorted_unique_bounded [OF run]] by (simp only:)
qed

text \<open>
  C1 as stated fails: asked for the range from 5 to 10, a transport that returns one row
  opening at 0 gets that row back from \<^verbatim>\<open>fetch_klines\<close>, below \<open>start_ms\<close>.
\<close>

theorem fetch_klines_below_start:
  "fetch_klines scripted int_of_cell float_of_cell ''BTCUSDT'' ''1h'' 5 10 20
     \<lparr>net = [Body [row 0]], trace = []\<rparr>
   = Some (Inr [candle 0],
       \<lparr>net = [], trace = [Get (BASE_URL @ KLINES_PATH) (page_params ''BTCUSDT'' ''1h'' 5 10) 20]\<rparr>)
   \<and> \<not> 5 \<le> open_time_ms (candle 0)"
  unfolding fetch_klines_def
  apply (subst fetch_loop.simps)
  apply (simp add: request_with_retry_def retry_loop.simps do_get_def parse_row_row last_open_row
       out_sorted_def dedup_def)
  apply (simp add: candle_def)
  done

subsection \<open>Termination of the pagination loop\<close>

lemma retry_loop_body:
  "retry_loop get url ps timeout retries attempt w = (Inr data, w1) \<Longrightarrow> data \<noteq> [] \<Longrightarrow>
   \<exists>n n'. get n url ps timeout = (Body data, n')"
proof (induction get url ps timeout retries attempt w rule: retry_loop.induct)
  case (1 get url ps timeout retries attempt w)
  show ?case
  proof (cases "retries < attempt")
    case True
    with "1.prems" show ?thesis by (simp add: retry_loop.simps)
  next
    case False
    obtain out w2 where dg: "do_get get url ps timeout w = (out, w2)"
      by (cases "do_get get url ps timeout w")
    then have g: "fst (get (net w) url ps timeout) = out"
      by (auto simp: do_get_def split: prod.splits)
    show ?thesis
    proof (cases out)
      case (Body js)
      with "1.prems" False dg have "js = data" by (simp add: retry_loop.simps)
      with g Body show ?thesis by (metis prod.collapse)
    next
      case (Raises e)
      show ?thesis
      proof (cases e)
        case ConnectionError
        with "1.prems" False dg Raises "1.IH"(1) [OF False dg [symmetric]] show ?thesis
          by (simp add: retry_loop.simps split: if_splits)
      next
        case Timeout
        with "1.prems" False dg Raises "1.IH"(2) [OF False dg [symmetric]] show ?thesis
          by (simp add: retry_loop.simps split: if_splits)
      next
        case (HTTPError st)
        with "1.prems" False dg Raises "1.IH"(3) [OF False dg [symmetric]] show ?thesis
          by (simp add: retry_loop.simps split: if_splits)
      next
        case (OtherError m)
        with "1.prems" False dg Raises show ?thesis
          by (simp add: retry_loop.simps)
      qed
    qed
  qed
qed

lemma start_param: "map_of (page_params symbol interval c end_ms) ''startTime'' = Some (PInt c)"
  by (simp add: page_params_def)

lemma honours_cursor:
  assumes h: "honours_start get to_int"
    and rq: "request_with_retry get url (page_params symbol interval c end_ms) timeout 3 w
              = (Inr data, w1)"
    and ne: "data \<noteq> []"
    and lo: "ebind (py_index (last data) 0) to_int = Inr last_open"
  shows "c \<le> last_open"
proof -
  from rq ne obtain n n' where
    "get n url (page_params symbol interval c end_ms) timeout = (Body data, n')"
    unfolding request_with_retry_def by (blast dest: retry_loop_body)
  with h ne lo start_param show ?thesis
    unfolding honours_start_def by blast
qed

lemma fetch_loop_terminates:
  assumes h: "honours_start get to_int"
  shows "\<exists>r. fetch_loop get to_int to_float symbol interval end_ms timeout next_start out w = Some r"
proof (induction "nat (end_ms - next_start)" arbitrary: next_start out w rule: less_induct)
  case less
  obtain res w1 where rq: "request_with_retry get (BASE_URL @ KLINES_PATH)
      (page_params symbol interval next_start end_ms) timeout 3 w = (res, w1)"
    by (cases "request_with_retry get (BASE_URL @ KLINES_PATH)
      (page_params symbol interval next_start end_ms) timeout 3 w")
  show ?case
  proof (cases res)
    case (Inl e)
    with rq show ?thesis by (subst fetch_loop.simps) simp
  next
    case (Inr data)
    note data = this
    show ?thesis
    proof (cases "data = []")
      case True
      with rq data show ?thesis by (subst fetch_loop.simps) simp
    next
      case ne: False
      show ?thesis
      proof (cases "parse_rows to_int to_float data")
        case (Inl e)
        with rq data ne show ?thesis by (subst fetch_loop.simps) simp
      next
        case (Inr ks)
        note ks = this
        show ?thesis
        proof (cases "ebind (py_index (last data) 0) to_int")
          case (Inl e)
          with rq data ne ks show ?thesis by (subst fetch_loop.simps) simp
        next
          case (Inr last_open)
          note lo = this
          show ?thesis
          proof (cases "end_ms \<le> last_open \<or> length data < 1000")
            case True
            with rq data ne ks lo show ?thesis by (subst fetch_loop.simps) auto
          next
            case False
            have "next_start \<le> last_open"
              using honours_cursor [OF h rq [unfolded data] ne lo] .
            with False have "nat (end_ms - (last_open + 1)) < nat (end_ms - next_start)"
              by simp
            from less [OF this] obtain r where
              "fetch_loop get to_int to_float symbol interval end_ms timeout (last_open + 1)
                 (out @ ks) (do_sleep (3 / 20) w1) = Some r"
              by blast
            with rq data ne ks lo False show ?thesis by (subst fetch_loop.simps) simp
          qed
        qed
      qed
    qed
  qed
qed

lemma last_upto_le: "i \<le> j \<Longrightarrow> last [i..j] = j"
  by (metis upto_rec2 last_snoc)

lemma honours_paged: "honours_start paged_server int_of_cell"
  unfolding honours_start_def
proof (intro allI impI)
  fix n url ps timeout data n' c last_open
  assume g: "paged_server n url ps timeout = (Body data, n')" and ne: "data \<noteq> []"
    and s: "map_of ps ''startTime'' = Some (PInt c)"
    and lo: "ebind (py_index (last data) 0) int_of_cell = Inr last_open"
  define m where "m = min (c + int_param ps ''limit'' - 1) (int_param ps ''endTime'')"
  from g s have d: "data = map row [c..m]"
    by (simp add: paged_server_def m_def Let_def)
  with ne have cm: "c \<le> m" by auto
  then have "last data = row m" by (simp add: d last_map last_upto_le)
  with lo have "last_open = m" by (simp add: last_open_row)
  with cm show "c \<le> last_open" by simp
qed

text \<open>
  C2, as the code has it. For every non-empty page that parses, on any transport: if its
  last row opens at or after \<open>end_ms\<close>, or it has fewer than 1000 rows, the loop returns in
  the world the request left, with no further request; otherwise the loop goes on from the
  cursor \<open>last_open + 1\<close> after sleeping 0.15 seconds. On a transport that honours
  \<^verbatim>\<open>startTime\<close>, the new cursor is strictly greater than the previous one and
  \<^verbatim>\<open>fetch_klines\<close> returns (a value or an exception) from every start: the loop ends.
\<close>

theorem pagination_terminates:
  "(\<forall>c out w data w1 ks last_open.
       request_with_retry get (BASE_URL @ KLINES_PATH)
         (page_params symbol interval c end_ms) timeout 3 w = (Inr data, w1) \<longrightarrow>
       data \<noteq> [] \<longrightarrow> parse_rows to_int to_float data = Inr ks \<longrightarrow>
       ebind (py_index (last data) 0) to_int = Inr last_open \<longrightarrow>
       (if end_ms \<le> last_open \<or> length data < 1000
        then fetch_loop get to_int to_float symbol interval end_ms timeout c out w
               = Some (Inr (out @ ks), w1)
        else fetch_loop get to_int to_float symbol interval end_ms timeout c out w
               = fetch_loop get to_int to_float symbol interval end_ms timeout
                   (last_open + 1) (out @ ks) (do_sleep (3 / 20) w1)))
   \<and> (honours_start get to_int \<longrightarrow>
        (\<forall>c w data w1 last_open.
           request_with_retry get (BASE_URL @ KLINES_PATH)
             (page_params symbol interval c end_ms) timeout 3 w = (Inr data, w1) \<longrightarrow>
           data \<noteq> [] \<longrightarrow> ebind (py_index (last data) 0) to_int = Inr last_open \<longrightarrow>
           c < last_open + 1)
        \<and> (\<forall>start_ms w. \<exists>r.
             fetch_klines get to_int to_float symbol interval start_ms end_ms timeout w = Some r))"
proof (intro conjI allI impI)
  fix c out w data w1 ks last_open
  assume rq: "request_with_retry get (BASE_URL @ KLINES_PATH)
            (page_params symbol interval c end_ms) timeout 3 w = (Inr data, w1)"
    and ne: "data \<noteq> []" and ks: "parse_rows to_int to_float data = Inr ks"
    and lo: "ebind (py_index (last data) 0) to_int = Inr last_open"
  show "if end_ms \<le> last_open \<or> length data < 1000
        then fetch_loop get to_int to_float symbol interval end_ms timeout c out w
               = Some (Inr (out @ ks), w1)
        else fetch_loop get to_int to_float symbol interval end_ms timeout c out w
               = fetch_loop get to_int to_float symbol interval end_ms timeout
                   (last_open + 1) (out @ ks) (do_sleep (3 / 20) w1)"
  proof (cases "end_ms \<le> last_open \<or> length data < 1000")
    case True
    have "fetch_loop get to_int to_float symbol interval end_ms timeout c out w
                  = Some (Inr (out @ ks), w1)"
      using rq ne ks lo True by (subst fetch_loop.simps) auto
    with True show ?thesis by (simp only: if_True)
  next
    case False
    have "fetch_loop get to_int to_float symbol interval end_ms timeout c out w
                  = fetch_loop get to_int to_float symbol interval end_ms timeout
                      (last_open + 1) (out @ ks) (do_sleep (3 / 20) w1)"
      using rq ne ks lo False by (subst fetch_loop.simps) simp
    with False show ?thesis by (simp only: if_False)
  qed
next
  fix c w data w1 last_open
  assume h: "honours_start get to_int"
    and rq: "request_with_retry get (BASE_URL @ KLINES_PATH)
            (page_params symbol interval c end_ms) timeout 3 w = (Inr data, w1)"
    and ne: "data \<noteq> []"
    and lo: "ebind (py_index (last data) 0) to_int = Inr last_open"
  have "c \<le> last_open" using honours_cursor [OF h rq ne lo] .
  then show "c < last_open + 1" by simp
next
  fix start_ms w
  assume h: "honours_start get to_int"
  obtain r where "fetch_loop get to_int to_float symbol interval end_ms timeout start_ms [] w
      = Some r"
    using fetch_loop_terminates [OF h] by blast
  then show "\<exists>r. fetch_klines get to_int to_float symbol interval start_ms end_ms timeout w = Some r"
    by (cases r, cases "fst r") (simp_all add: fetch_klines_def)
qed

lemma parse_rows_map: "parse_rows int_of_cell float_of_cell (map row ts) = Inr (map candle ts)"
  by (induction ts) (simp_all add: parse_row_row)

lemma retry_paged:
  "request_with_retry paged_server url (page_params symbol interval c e) timeout 3 w
     = (Inr (map row [c .. min (c + 999) e]), w\<lparr>trace := trace w @ [Get url (page_params symbol interval c e) timeout]\<rparr>)"
  by (simp add: request_with_retry_def retry_loop.simps do_get_def paged_server_def page_params_def add.commute)

theorem pagination_terminates_witness:
  "honours_start paged_server int_of_cell
   \<and> fetch_loop paged_server int_of_cell float_of_cell ''BTCUSDT'' ''1h'' 1500 20 0 [] world0
       = Some (Inr (map candle [0..999] @ map candle [1000..1500]),
           \<lparr>net = (), trace = [Get (BASE_URL @ KLINES_PATH) (page_params ''BTCUSDT'' ''1h'' 0 1500) 20,
                                 Sleep (3 / 20),
                                 Get (BASE_URL @ KLINES_PATH) (page_params ''BTCUSDT'' ''1h'' 1000 1500) 20]\<rparr>)
   \<and> (0::int) < 999 + 1
   \<and> fetch_klines paged_server int_of_cell float_of_cell ''BTCUSDT'' ''1h'' 0 1500 20 world0 \<noteq> None"
proof -
  note T = pagination_terminates [of paged_server "''BTCUSDT''" "''1h''" 1500 20 int_of_cell float_of_cell]
  let ?w1 = "world0\<lparr>trace := trace world0 @ [Get (BASE_URL @ KLINES_PATH) (page_params ''BTCUSDT'' ''1h'' 0 1500) 20]\<rparr>"
  let ?w2 = "do_sleep (3 / 20) ?w1"
  let ?w3 = "?w2\<lparr>trace := trace ?w2 @ [Get (BASE_URL @ KLINES_PATH) (page_params ''BTCUSDT'' ''1h'' 1000 1500) 20]\<rparr>"
  have r1: "request_with_retry paged_server (BASE_URL @ KLINES_PATH)
              (page_params ''BTCUSDT'' ''1h'' 0 1500) 20 3 world0 = (Inr (map row [0..999]), ?w1)"
    by (simp add: retry_paged)
  have r2: "request_with_retry paged_server (BASE_URL @ KLINES_PATH)
              (page_params ''BTCUSDT'' ''1h'' 1000 1500) 20 3 ?w2 = (Inr (map row [1000..1500]), ?w3)"
    by (simp add: retry_paged)
  have l1: "ebind (py_index (last (map row [0..999])) 0) int_of_cell = Inr 999"
    by (simp add: last_map last_upto_le last_open_row)
  have l2: "ebind (py_index (last (map row [1000..1500])) 0) int_of_cell = Inr 1500"
    by (simp add: last_map last_upto_le last_open_row)
  have n1: "map row [0..999] \<noteq> []" and n2: "map row [1000..1500] \<noteq> []" by simp_all
  have s1: "fetch_loop paged_server int_of_cell float_of_cell ''BTCUSDT'' ''1h'' 1500 20 0 [] world0
      = fetch_loop paged_server int_of_cell float_of_cell ''BTCUSDT'' ''1h'' 1500 20 (999 + 1)
          ([] @ map candle [0..999]) ?w2"
    using T [THEN conjunct1, rule_format, OF r1 n1 parse_rows_map l1, of "[]"] by simp
  have s2: "fetch_loop paged_server int_of_cell float_of_cell ''BTCUSDT'' ''1h'' 1500 20 1000
          (map candle [0..999]) ?w2 = Some (Inr (map candle [0..999] @ map candle [1000..1500]), ?w3)"
    using T [THEN conjunct1, rule_format, OF r2 n2 parse_rows_map l2, of "map candle [0..999]"] by simp
  have run: "fetch_loop paged_server int_of_cell float_of_cell ''BTCUSDT'' ''1h'' 1500 20 0 [] world0
       = Some (Inr (map candle [0..999] @ map candle [1000..1500]),
           \<lparr>net = (), trace = [Get (BASE_URL @ KLINES_PATH) (page_params ''BTCUSDT'' ''1h'' 0 1500) 20,
                                 Sleep (3 / 20),
                                 Get (BASE_URL @ KLINES_PATH) (page_params ''BTCUSDT'' ''1h'' 1000 1500) 20]\<rparr>)"
    using s1 s2 by (simp add: world0_def do_sleep_def)
  have adv: "(0::int) < 999 + 1"
    using T [THEN conjunct2, rule_format, OF honours_paged, THEN conjunct1, rule_format, OF r1 n1 l1] .
  have "\<exists>r. fetch_klines paged_server int_of_cell float_of_cell ''BTCUSDT'' ''1h'' 0 1500 20 world0 = Some r"
    using T [THEN conjunct2, rule_format, OF honours_paged, THEN conjunct2, rule_format] .
  then have fin: "fetch_klines paged_server int_of_cell float_of_cell ''BTCUSDT'' ''1h'' 0 1500 20 world0 \<noteq> None"
    by auto
  from honours_paged run adv fin show ?thesis by blast
qed


lemma parse_rows_replicate:
  "parse_rows int_of_cell float_of_cell (replicate n (row t)) = Inr (replicate n (candle t))"
  by (induction n) (simp_all add: parse_row_row)

lemma retry_always_page:
  "request_with_retry (always_page page) url ps timeout 3 w
     = (Inr page, w\<lparr>trace := trace w @ [Get url ps timeout]\<rparr>)"
  by (simp add: request_with_retry_def retry_loop.simps do_get_def always_page_def)

lemma always_page_diverges_aux:
  assumes "fetch_loop get to_int to_float symbol interval end_ms timeout c out w = Some y"
  shows "get = always_page (replicate 1000 (row 0)) \<longrightarrow> to_int = int_of_cell \<longrightarrow>
   to_float = float_of_cell \<longrightarrow> end_ms = 10 \<longrightarrow> False"
proof (rule fetch_loop.raw_induct [where P = "\<lambda>get to_int to_float symbol interval end_ms
    timeout c out w y. get = always_page (replicate 1000 (row 0)) \<longrightarrow> to_int = int_of_cell \<longrightarrow>
   to_float = float_of_cell \<longrightarrow> end_ms = 10 \<longrightarrow> False", OF _ assms], goal_cases)
  case (1 fl get to_int to_float symbol interval end_ms timeout next_start out w y)
  show ?case
  proof (intro impI)
    assume g: "get = always_page (replicate 1000 (row 0))" and i: "to_int = int_of_cell"
      and f: "to_float = float_of_cell" and e: "end_ms = 10"
    have "fl get to_int to_float symbol interval end_ms timeout (0 + 1)
            (out @ replicate 1000 (candle 0))
            (do_sleep (3 / 20) (w\<lparr>trace := trace w @ [Get (BASE_URL @ KLINES_PATH)
               (page_params symbol interval next_start end_ms) timeout]\<rparr>)) = Some y"
      using 1(2) unfolding g i f e
      by (simp add: retry_always_page parse_rows_replicate last_open_row)
    from 1(1) [OF this] g i f e show False by blast
  qed
qed

text \<open>
  C2 as stated fails: bounded open-times alone do not end the loop. A transport that
  answers every request with the same full page of 1000 rows opening at 0, asked for the
  range from 5 to 10, sets the cursor to 1 after every page, below the first cursor 5, and
  \<^verbatim>\<open>fetch_klines\<close> never returns.
\<close>

theorem always_page_diverges:
  "fetch_klines (always_page (replicate 1000 (row 0))) int_of_cell float_of_cell
     ''BTCUSDT'' ''1h'' 5 10 20 world0 = None"
proof (cases "fetch_loop (always_page (replicate 1000 (row 0))) int_of_cell float_of_cell
     ''BTCUSDT'' ''1h'' 10 20 5 [] world0")
  case None
  then show ?thesis by (simp add: fetch_klines_def)
next
  case (Some y)
  from always_page_diverges_aux [OF this] show ?thesis by blast
qed

section \<open>Properties of the metrics\<close>

lemma pow2_pos: "0 < pow2 e"
  by (simp add: pow2_def)









lemma truthy_iff: "truthy c \<longleftrightarrow> c \<noteq> Flt 0"
  by (cases c) simp_all

lemma fdiv_truthy: "truthy c \<Longrightarrow> \<exists>q. fdiv x c = Inr q"
  by (cases c; cases x) simp_all

lemma pct_change_cases:
  "pct_change c_end c = Inr p \<Longrightarrow>
     (c = Flt 0 \<and> p = NaN) \<or> (c \<noteq> Flt 0 \<and> (\<exists>q. fdiv c_end c = Inr q \<and> p = fmul (fsub q (Flt 1)) (Flt 100)))"
  unfolding pct_change_def truthy_iff
  by (cases "fdiv c_end c") (auto split: if_splits)




lemma set_uniq [simp]: "set (uniq xs) = set xs"
  by (induction xs) auto






declare decimal.simps [simp del]




lemma length_pad [simp]: "length (pad2 n) = 2" "length (pad4 n) = 4"
  by (simp_all add: pad2_def pad4_def)














lemma whole_hour:
  assumes "- 8502840 \<le> h" "h \<le> 70389527"
  shows "whole_second (h * 3600000)"
proof -
  have "h * 3600000 = h * 3600 * 1000" by simp
  then have "h * 3600000 mod 1000 = 0" by (simp only: mod_mult_self2_is_0)
  with assms show ?thesis by (simp add: whole_second_def)
qed






text \<open>
  C8: on an empty series \<^verbatim>\<open>calc_metrics\<close> returns not-a-number for all four outputs; it
  raises no error and returns no zero.
\<close>

theorem calc_metrics_empty: "calc_metrics py_sum symbol [] = Inr (NaN, NaN, NaN, NaN)"
  by (simp add: calc_metrics_def)



subsection \<open>Average daily volume\<close>















end
